theory Spec2Isabelle
  imports Complex_Main
begin

section \<open>Data model\<close>

text \<open>
  Modelled from the spec: the columns of the table \<open>territory_properties\<close>. The table's
  schema is not part of the repository; the script names the columns \<open>city\<close>,
  \<open>square_footage\<close>, \<open>clear_height_ft\<close>, \<open>address\<close> and the display columns of its last
  lines, and the query adds \<open>wkt_coordinates\<close> (the text of the geometry, \<open>None\<close> for a
  SQL NULL). Integers are unbounded, as the spec's data model has them.
\<close>

record property_record =
  address :: string
  city :: string
  state :: string
  zip_code :: string
  square_footage :: int
  clear_height_ft :: int
  dock_doors :: int
  year_built :: int
  last_sale_price :: "rat option"
  current_lease_rate_psf :: "rat option"
  is_vacant :: bool
  wkt_coordinates :: "string option"

text \<open>
  A row of the GeoDataFrame the loader returns: the columns of the query, the geometry
  column built from the text, and the two columns \<open>lat\<close> and \<open>lon\<close> the loader adds.
  The geometry type \<open>'g\<close> and the coordinate type \<open>'c\<close> belong to the geometry library.
\<close>

record ('g, 'c) geo_record = property_record +
  geometry :: 'g
  lat :: 'c
  lon :: 'c

section \<open>The pandas operations the script uses\<close>

text \<open>
  A data frame is the list of its rows in index order, a Series the list of its values.
  \<open>col f df\<close> is \<open>df['f']\<close>; \<open>isin\<close>, \<open>between\<close> (both bounds inclusive, the default)
  and \<open>&\<close> work element by element; \<open>df[mask]\<close> keeps the rows whose mask entry is
  true; \<open>.copy()\<close> returns a frame with the same rows.
\<close>

definition col :: "('r \<Rightarrow> 'a) \<Rightarrow> 'r list \<Rightarrow> 'a list" where
  "col f df = map f df"

definition isin :: "'a list \<Rightarrow> 'a list \<Rightarrow> bool list" where
  "isin s vals = map (\<lambda>v. v \<in> set vals) s"

definition between :: "int list \<Rightarrow> int \<Rightarrow> int \<Rightarrow> bool list" where
  "between s left right = map (\<lambda>v. left \<le> v \<and> v \<le> right) s"

definition series_and :: "bool list \<Rightarrow> bool list \<Rightarrow> bool list" where
  "series_and a b = map (\<lambda>(x, y). x \<and> y) (zip a b)"

definition mask_select :: "'r list \<Rightarrow> bool list \<Rightarrow> 'r list" where
  "mask_select df m = map fst (filter snd (zip df m))"

definition copy :: "'r list \<Rightarrow> 'r list" where
  "copy df = df"

definition series_sum :: "int list \<Rightarrow> int" where
  "series_sum s = sum_list s"

text \<open>
  A float64 is either NaN or a finite value. The finite values are kept as exact
  rationals: the rounding of the division is not modelled. \<open>Series.mean()\<close> of an empty
  Series is NaN.
\<close>

datatype float64 = NaN | Finite rat

definition series_mean :: "int list \<Rightarrow> float64" where
  "series_mean s =
     (if s = [] then NaN else Finite (of_int (sum_list s) / of_nat (length s)))"

section \<open>Applying the filters\<close>

text \<open>
  The three sidebar selections: the cities and the clear heights chosen in the two
  multiselects, and the pair the slider returns.
\<close>

record filter_criteria =
  selected_cities :: "string list"
  selected_sqft :: "int \<times> int"
  selected_height :: "int list"

text \<open>
  The filter expression of the script: a boolean mask built from the three columns,
  the rows it selects, copied.
\<close>

definition filtered_df ::
  "('a property_record_scheme) list \<Rightarrow> filter_criteria \<Rightarrow> ('a property_record_scheme) list" where
  "filtered_df geo_df c =
     copy (mask_select geo_df
       (series_and
         (series_and
           (isin (col city geo_df) (selected_cities c))
           (between (col square_footage geo_df) (fst (selected_sqft c)) (snd (selected_sqft c))))
         (isin (col clear_height_ft geo_df) (selected_height c))))"

text \<open>
  The assignment \<open>filtered_df = geo_df[...].copy()\<close> on the script's two variables:
  \<open>geo_df\<close> is read, \<open>filtered_df\<close> is written.
\<close>

record 'r script_vars =
  var_geo_df :: "'r list"
  var_filtered_df :: "'r list"

definition assign_filtered_df ::
  "filter_criteria \<Rightarrow> ('a property_record_scheme) script_vars \<Rightarrow>
   ('a property_record_scheme) script_vars" where
  "assign_filtered_df c v = v\<lparr>var_filtered_df := filtered_df (var_geo_df v) c\<rparr>"

text \<open>The predicate of the spec's Filter Engine: the three criteria, all of them.\<close>

definition retained :: "filter_criteria \<Rightarrow> 'a property_record_scheme \<Rightarrow> bool" where
  "retained c r \<longleftrightarrow>
     city r \<in> set (selected_cities c) \<and>
     fst (selected_sqft c) \<le> square_footage r \<and> square_footage r \<le> snd (selected_sqft c) \<and>
     clear_height_ft r \<in> set (selected_height c)"

section \<open>The market snapshot\<close>

text \<open>
  The three key figures of the script: \<open>len(filtered_df)\<close>, the sum of the
  \<open>square_footage\<close> column and \<open>avg_sf\<close>, its mean. The third metric shows the formatted
  mean when the frame has a row and the text \<open>N/A\<close> otherwise: \<open>None\<close> stands for
  \<open>N/A\<close>. The names \<open>summarize\<close>, \<open>count\<close>, \<open>total_square_footage\<close> and
  \<open>average_square_footage\<close> are the spec's; the script computes the figures in place.
  The formatting of the numbers (thousands separators, millions, rounding to a whole
  number) belongs to the presentation and is left out.
\<close>

record metrics =
  count :: nat
  total_square_footage :: int
  average_square_footage :: "float64 option"

definition avg_sf :: "('a property_record_scheme) list \<Rightarrow> float64" where
  "avg_sf fdf = series_mean (col square_footage fdf)"

definition summarize :: "('a property_record_scheme) list \<Rightarrow> metrics" where
  "summarize fdf =
     \<lparr>count = length fdf,
      total_square_footage = series_sum (col square_footage fdf),
      average_square_footage = (if length fdf > 0 then Some (avg_sf fdf) else None)\<rparr>"

section \<open>Loading the data\<close>

text \<open>
  A Python exception (an instance of \<open>Exception\<close>) with its text \<open>str(e)\<close>. A call that
  may raise returns \<open>Inl e\<close> when it raises and \<open>Inr v\<close> when it returns \<open>v\<close>.
  \<open>BaseException\<close>s that are no \<open>Exception\<close> (a keyboard interrupt) are not modelled.
\<close>

datatype exn = Exception string

fun str :: "exn \<Rightarrow> string" where
  "str (Exception m) = m"

text \<open>What the script shows to the user: \<open>st.warning\<close> and \<open>st.error\<close>.\<close>

datatype element = Warning string | Error string

text \<open>
  The collaborators of the loader, whose code is not in the repository: the outcome of
  \<open>pd.read_sql(query, db_engine)\<close> (the rows, or the exception of a failed connection
  or query), and the geometry library: \<open>from_wkt\<close> on one text, and the accessors
  \<open>.y\<close> and \<open>.x\<close> on one geometry. Each may raise.
\<close>

record ('g, 'c) env =
  read_sql :: "exn + property_record list"
  from_wkt :: "string option \<Rightarrow> exn + 'g"
  geometry_y :: "'g \<Rightarrow> exn + 'c"
  geometry_x :: "'g \<Rightarrow> exn + 'c"

text \<open>
  A library call on a whole column: it raises when the call on an element raises, and
  returns the column of results otherwise.
\<close>

fun vectorized :: "('a \<Rightarrow> exn + 'b) \<Rightarrow> 'a list \<Rightarrow> exn + 'b list" where
  "vectorized f [] = Inr []"
| "vectorized f (x # xs) =
     (case f x of
        Inl e \<Rightarrow> Inl e
      | Inr y \<Rightarrow> (case vectorized f xs of Inl e \<Rightarrow> Inl e | Inr ys \<Rightarrow> Inr (y # ys)))"

text \<open>
  \<open>GeoDataFrame(df, geometry=...)\<close> pairs each row with its geometry;
  \<open>with_lat_lon\<close> is the frame after the two column assignments
  \<open>gdf['lat'] = gdf.geometry.y\<close> and \<open>gdf['lon'] = gdf.geometry.x\<close>.
\<close>

definition GeoDataFrame :: "property_record list \<Rightarrow> 'g list \<Rightarrow> (property_record \<times> 'g) list" where
  "GeoDataFrame df gs = zip df gs"

definition with_lat_lon ::
  "(property_record \<times> 'g) list \<Rightarrow> 'c list \<Rightarrow> 'c list \<Rightarrow> ('g, 'c) geo_record list" where
  "with_lat_lon gdf ys xs =
     map (\<lambda>((r, g), (y, x)). property_record.extend r \<lparr>geometry = g, lat = y, lon = x\<rparr>)
       (zip gdf (zip ys xs))"

text \<open>
  The body of the \<open>try\<close> statement of \<open>load_data_from_db\<close>: the elements it shows and the
  frame it returns, or the exception it raises.
\<close>

definition try_block :: "('g, 'c) env \<Rightarrow> exn + (element list \<times> ('g, 'c) geo_record list)" where
  "try_block env =
     (case read_sql env of
        Inl e \<Rightarrow> Inl e
      | Inr df \<Rightarrow>
          if df = [] then Inr ([Warning ''No data returned from the database.''], [])
          else
            (case vectorized (from_wkt env) (col wkt_coordinates df) of
               Inl e \<Rightarrow> Inl e
             | Inr gs \<Rightarrow>
                 let gdf = GeoDataFrame df gs in
                 if gdf \<noteq> [] then
                   (case vectorized (geometry_y env) (col snd gdf) of
                      Inl e \<Rightarrow> Inl e
                    | Inr ys \<Rightarrow>
                        (case vectorized (geometry_x env) (col snd gdf) of
                           Inl e \<Rightarrow> Inl e
                         | Inr xs \<Rightarrow> Inr ([], with_lat_lon gdf ys xs)))
                 else Inr ([], with_lat_lon gdf [] [])))"

text \<open>
  \<open>load_data_from_db\<close>: the \<open>except Exception\<close> clause shows the error and returns an
  empty \<open>GeoDataFrame()\<close>. The calls of \<open>print\<close>, \<open>st.warning\<close> and \<open>st.error\<close> are taken
  to return; what \<open>print\<close> writes is not part of the result.
\<close>

definition load_data_from_db ::
  "('g, 'c) env \<Rightarrow> exn + (element list \<times> ('g, 'c) geo_record list)" where
  "load_data_from_db env =
     (case try_block env of
        Inl e \<Rightarrow>
          Inr ([Error (''An error occurred while loading or processing data: '' @ str e)], [])
      | Inr r \<Rightarrow> Inr r)"

text \<open>The value the script's variable \<open>geo_df\<close> receives from the call.\<close>

definition geo_df_of :: "('g, 'c) env \<Rightarrow> exn + ('g, 'c) geo_record list" where
  "geo_df_of env = map_sum id snd (load_data_from_db env)"

section \<open>The script\<close>

text \<open>
  One run of the script, up to the key figures: it loads the data, stops with a warning
  when the frame is empty, and otherwise filters by the sidebar's selections and
  computes the figures.
\<close>

datatype ('g, 'c) run =
    Raised exn
  | Stopped "element list"
  | Rendered "element list" "('g, 'c) geo_record list" metrics

definition dashboard :: "('g, 'c) env \<Rightarrow> filter_criteria \<Rightarrow> ('g, 'c) run" where
  "dashboard env c =
     (case load_data_from_db env of
        Inl e \<Rightarrow> Raised e
      | Inr (shown, geo_df) \<Rightarrow>
          if geo_df = [] then
            Stopped (shown @
              [Warning ''No data to display. Please ensure Phase 1 ran successfully and populated the database.''])
          else
            (let fdf = filtered_df geo_df c in Rendered shown fdf (summarize fdf)))"

section \<open>The geometry decoder of the spec\<close>

text \<open>
  Modelled from the spec: the Geometry Decoder of section 4.1. The script decodes the
  text with \<open>geopandas.GeoSeries.from_wkt\<close> and reads the coordinates with \<open>.x\<close> and
  \<open>.y\<close>; the code of that library is not in the repository. The definitions of this
  section follow the spec's words: the text \<open>POINT(x y)\<close> with two decimal numbers gives
  the pair \<open>(x, y)\<close>, any other text is malformed, and a text of another geometry type
  is unsupported. A coordinate is a decimal number, kept exactly as a mantissa and a
  number of fractional digits; its conversion to a float is not modelled.
\<close>

text \<open>Modelled from the spec: a coordinate, \<open>Decimal m k\<close> for \<open>m / 10 ^ k\<close>.\<close>

datatype decimal = Decimal int nat

fun decimal_value :: "decimal \<Rightarrow> rat" where
  "decimal_value (Decimal m k) = of_int m / 10 ^ k"

text \<open>Modelled from the spec: the structured point, \<open>x\<close> the longitude and \<open>y\<close> the latitude.\<close>

datatype point = Point decimal decimal

fun point_x :: "point \<Rightarrow> decimal" where
  "point_x (Point x y) = x"

fun point_y :: "point \<Rightarrow> decimal" where
  "point_y (Point x y) = y"

text \<open>Modelled from the spec: the two errors of the decoder.\<close>

datatype geometry_error = MalformedGeometry | UnsupportedGeometryType

text \<open>Modelled from the spec: decimal digits and the number they write.\<close>

definition is_digit :: "char \<Rightarrow> bool" where
  "is_digit c \<longleftrightarrow> 48 \<le> (of_char c :: nat) \<and> (of_char c :: nat) \<le> 57"

definition digit_char :: "nat \<Rightarrow> char" where
  "digit_char d = char_of (48 + d)"

definition digit_value :: "char \<Rightarrow> nat" where
  "digit_value c = of_char c - 48"

definition read_nat :: "string \<Rightarrow> nat" where
  "read_nat ds = foldl (\<lambda>n c. 10 * n + digit_value c) 0 ds"

text \<open>
  Modelled from the spec: the trivial encoder of its round-trip property: a natural
  number without leading zeros, a natural number on exactly \<open>k\<close> digits, a decimal
  number with its sign and its fractional digits, and the text of a point.
\<close>

fun show_nat :: "nat \<Rightarrow> string" where
  "show_nat n =
     (if n < 10 then [digit_char n] else show_nat (n div 10) @ [digit_char (n mod 10)])"

fun show_digits :: "nat \<Rightarrow> nat \<Rightarrow> string" where
  "show_digits 0 n = []"
| "show_digits (Suc k) n = show_digits k (n div 10) @ [digit_char (n mod 10)]"

fun show_number :: "decimal \<Rightarrow> string" where
  "show_number (Decimal m k) =
     (if m < 0 then ''-'' else []) @ show_nat (nat \<bar>m\<bar> div 10 ^ k) @
     (if k = 0 then [] else ''.'' @ show_digits k (nat \<bar>m\<bar> mod 10 ^ k))"

fun encode_point :: "point \<Rightarrow> string" where
  "encode_point (Point x y) = ''POINT('' @ show_number x @ '' '' @ show_number y @ '')''"

text \<open>
  Modelled from the spec: reading one coordinate: an optional minus sign, digits, and
  optionally a point followed by digits. Anything else is no number.
\<close>

definition signed :: "bool \<Rightarrow> nat \<Rightarrow> int" where
  "signed neg n = (if neg then - int n else int n)"

definition parse_number :: "string \<Rightarrow> decimal option" where
  "parse_number t =
     (let neg = (t \<noteq> [] \<and> hd t = CHR ''-'');
          u = (if neg then tl t else t);
          w = takeWhile is_digit u;
          f = dropWhile is_digit u
      in if w = [] then None
         else if f = [] then Some (Decimal (signed neg (read_nat w)) 0)
         else if hd f = CHR ''.'' \<and> tl f \<noteq> [] \<and> list_all is_digit (tl f)
           then Some (Decimal (signed neg (read_nat (w @ tl f))) (length (tl f)))
         else None)"

text \<open>Modelled from the spec: the tokens of a text, separated by one character.\<close>

fun split_on :: "char \<Rightarrow> string \<Rightarrow> string list" where
  "split_on c [] = [[]]"
| "split_on c (x # xs) =
     (if x = c then [] # split_on c xs
      else (case split_on c xs of [] \<Rightarrow> [[x]] | t # ts \<Rightarrow> (x # t) # ts))"

text \<open>
  Modelled from the spec: the keywords of the well-known-text geometry types other than
  the point.
\<close>

definition other_geometry_types :: "string list" where
  "other_geometry_types =
     [''LINESTRING'', ''POLYGON'', ''MULTIPOINT'', ''MULTILINESTRING'', ''MULTIPOLYGON'',
      ''GEOMETRYCOLLECTION'']"

definition starts_with :: "string \<Rightarrow> string \<Rightarrow> bool" where
  "starts_with kw s \<longleftrightarrow> take (length kw) s = kw"

text \<open>
  Modelled from the spec: the decoder. A null input is malformed; a text that starts
  with the keyword of another geometry type is unsupported; a text without the opening
  \<open>POINT(\<close> or the closing parenthesis, with another number of tokens than two, or with
  a token that is no number, is malformed.
\<close>

fun decode_point :: "string option \<Rightarrow> geometry_error + point" where
  "decode_point None = Inl MalformedGeometry"
| "decode_point (Some s) =
     (if list_ex (\<lambda>kw. starts_with kw s) other_geometry_types then Inl UnsupportedGeometryType
      else if \<not> starts_with ''POINT('' s then Inl MalformedGeometry
      else
        (let body = drop 6 s in
         if body = [] \<or> last body \<noteq> CHR '')'' then Inl MalformedGeometry
         else
           (case split_on CHR '' '' (butlast body) of
              [t1, t2] \<Rightarrow>
                (case (parse_number t1, parse_number t2) of
                   (Some x, Some y) \<Rightarrow> Inr (Point x y)
                 | _ \<Rightarrow> Inl MalformedGeometry)
            | _ \<Rightarrow> Inl MalformedGeometry)))"

text \<open>
  Modelled from the spec: the point grammar, stated on its own: a number is an optional
  minus sign, one digit or more, and optionally a point with one digit or more; a point
  text is \<open>POINT(\<close>, a number, one space, a number and \<open>)\<close>.
\<close>

definition number_text :: "string \<Rightarrow> bool" where
  "number_text t \<longleftrightarrow>
     (\<exists>sg w f. t = sg @ w @ f \<and> (sg = [] \<or> sg = ''-'') \<and> w \<noteq> [] \<and> list_all is_digit w \<and>
        (f = [] \<or> (\<exists>d. f = CHR ''.'' # d \<and> d \<noteq> [] \<and> list_all is_digit d)))"

definition point_text :: "string \<Rightarrow> bool" where
  "point_text s \<longleftrightarrow>
     (\<exists>t1 t2. s = ''POINT('' @ t1 @ '' '' @ t2 @ '')'' \<and> number_text t1 \<and> number_text t2)"

text \<open>Modelled from the spec: a text of a recognized geometry type other than the point.\<close>

definition other_geometry_text :: "string \<Rightarrow> bool" where
  "other_geometry_text s \<longleftrightarrow> (\<exists>kw rest. kw \<in> set other_geometry_types \<and> s = kw @ rest)"

text \<open>
  Modelled from the spec: the loader's collaborators with the spec's decoder in the
  place of the geometry library: a decoder error is raised as an exception that carries
  its name, and the two accessors return the coordinates of the point.
\<close>

fun raise_geometry_error :: "geometry_error \<Rightarrow> exn" where
  "raise_geometry_error MalformedGeometry = Exception ''MalformedGeometry''"
| "raise_geometry_error UnsupportedGeometryType = Exception ''UnsupportedGeometryType''"

definition spec_env :: "exn + property_record list \<Rightarrow> (point, decimal) env" where
  "spec_env q =
     \<lparr>read_sql = q,
      from_wkt =
        (\<lambda>s. case decode_point s of Inl err \<Rightarrow> Inl (raise_geometry_error err) | Inr p \<Rightarrow> Inr p),
      geometry_y = (\<lambda>p. Inr (point_y p)),
      geometry_x = (\<lambda>p. Inr (point_x p))\<rparr>"

section \<open>Sample data\<close>

definition sample_property :: "string \<Rightarrow> int \<Rightarrow> int \<Rightarrow> property_record" where
  "sample_property c sqft h =
     \<lparr>address = ''100 Industrial Blvd'', city = c, state = ''TX'', zip_code = ''78701'',
      square_footage = sqft, clear_height_ft = h, dock_doors = 4, year_built = 1999,
      last_sale_price = None, current_lease_rate_psf = None, is_vacant = False,
      wkt_coordinates = Some ''POINT(-97.7 30.3)''\<rparr>"

definition sample_criteria :: filter_criteria where
  "sample_criteria =
     \<lparr>selected_cities = [''Austin''], selected_sqft = (1000, 3000), selected_height = [32]\<rparr>"

text \<open>
  Three stores with a geometry library on pairs of integers: one whose query fails, one
  with no rows, and one with a row whose geometry text the library refuses.
\<close>

definition unavailable_store :: "(int \<times> int, int) env" where
  "unavailable_store =
     \<lparr>read_sql = Inl (Exception ''connection refused''),
      from_wkt = (\<lambda>s. Inr (0, 0)),
      geometry_y = (\<lambda>g. Inr (snd g)),
      geometry_x = (\<lambda>g. Inr (fst g))\<rparr>"

definition empty_store :: "(int \<times> int, int) env" where
  "empty_store = unavailable_store\<lparr>read_sql := Inr []\<rparr>"

definition bad_geometry_store :: "(int \<times> int, int) env" where
  "bad_geometry_store =
     \<lparr>read_sql = Inr [sample_property ''Austin'' 1000 32],
      from_wkt = (\<lambda>s. Inl (Exception ''ParseException'')),
      geometry_y = (\<lambda>g. Inr (snd g)),
      geometry_x = (\<lambda>g. Inr (fst g))\<rparr>"


text \<open>A row whose geometry text lacks its closing parenthesis.\<close>

definition unclosed_property :: property_record where
  "unclosed_property =
     (sample_property ''Dallas'' 3000 28)\<lparr>wkt_coordinates := Some ''POINT(-97.7 30.3''\<rparr>"

section \<open>Properties of the filter\<close>

lemma mask_select_map: "mask_select df (map p df) = filter p df"
  by (induction df) (simp_all add: mask_select_def)

lemma series_and_map: "series_and (map p df) (map q df) = map (\<lambda>r. p r \<and> q r) df"
  by (induction df) (simp_all add: series_and_def)

lemma filtered_df_filter: "filtered_df geo_df c = filter (retained c) geo_df"
proof -
  have mask:
    "series_and
       (series_and
         (isin (col city geo_df) (selected_cities c))
         (between (col square_footage geo_df) (fst (selected_sqft c)) (snd (selected_sqft c))))
       (isin (col clear_height_ft geo_df) (selected_height c))
     = map (retained c) geo_df"
    by (simp add: isin_def between_def col_def series_and_map retained_def)
  show ?thesis
    unfolding filtered_df_def copy_def mask by (rule mask_select_map)
qed

lemma filtered_df_no_city: "selected_cities c = [] \<Longrightarrow> filtered_df geo_df c = []"
  by (simp add: filtered_df_filter retained_def)

text \<open>
  C1. The filter returns exactly the rows of the table that meet all three criteria
  (the city is one of the selected cities, the square footage lies between the two
  bounds of the slider, both included, and the clear height is one of the selected
  heights), in the table's order; the assignment leaves the variable \<open>geo_df\<close> as it was.
\<close>

theorem filtered_df_exact:
  "var_filtered_df (assign_filtered_df c v) =
     filter (\<lambda>r. city r \<in> set (selected_cities c) \<and>
                 fst (selected_sqft c) \<le> square_footage r \<and>
                 square_footage r \<le> snd (selected_sqft c) \<and>
                 clear_height_ft r \<in> set (selected_height c)) (var_geo_df v) \<and>
   var_geo_df (assign_filtered_df c v) = var_geo_df v"
proof -
  have "filter (retained c) (var_geo_df v) =
     filter (\<lambda>r. city r \<in> set (selected_cities c) \<and>
                 fst (selected_sqft c) \<le> square_footage r \<and>
                 square_footage r \<le> snd (selected_sqft c) \<and>
                 clear_height_ft r \<in> set (selected_height c)) (var_geo_df v)"
    by (rule filter_cong) (simp_all add: retained_def)
  then show ?thesis
    by (simp add: assign_filtered_df_def filtered_df_filter)
qed

text \<open>
  The spec's example: with the range 1000 to 3000, the rows of 500, 1000, 3000 and 3500
  square feet leave the rows of 1000 and 3000.
\<close>

lemma filtered_df_inclusive_bounds:
  "filtered_df
     [sample_property ''Austin'' 500 32, sample_property ''Austin'' 1000 32,
      sample_property ''Austin'' 3000 32, sample_property ''Austin'' 3500 32]
     sample_criteria
   = [sample_property ''Austin'' 1000 32, sample_property ''Austin'' 3000 32]"
  by (simp add: filtered_df_filter retained_def sample_criteria_def sample_property_def)

text \<open>
  C2. With no city selected, the filter of a non-empty table returns the empty table,
  whatever the range and the heights: it shows nothing, and in particular not the
  whole table.
\<close>

theorem filtered_df_empty_city_selection:
  assumes "geo_df \<noteq> []" and "selected_cities c = []"
  shows "filtered_df geo_df c = [] \<and> filtered_df geo_df c \<noteq> geo_df"
  using assms by (simp add: filtered_df_no_city)

theorem filtered_df_empty_city_selection_witness:
  "[sample_property ''Austin'' 1000 32] \<noteq> [] \<and>
   selected_cities (sample_criteria\<lparr>selected_cities := []\<rparr>) = [] \<and>
   filtered_df [sample_property ''Austin'' 1000 32] (sample_criteria\<lparr>selected_cities := []\<rparr>) = [] \<and>
   filtered_df [sample_property ''Austin'' 1000 32] (sample_criteria\<lparr>selected_cities := []\<rparr>)
     \<noteq> [sample_property ''Austin'' 1000 32]"
  using filtered_df_empty_city_selection
    [of "[sample_property ''Austin'' 1000 32]" "sample_criteria\<lparr>selected_cities := []\<rparr>"]
  by simp

text \<open>C9. Filtering a filtered table again, with the same criteria, changes nothing.\<close>

theorem filtered_df_idempotent:
  "filtered_df (filtered_df geo_df c) c = filtered_df geo_df c"
  by (simp add: filtered_df_filter)

section \<open>Properties of the market snapshot\<close>



section \<open>Properties of the loader\<close>

lemma load_data_from_db_caught:
  "try_block env = Inl e \<Longrightarrow>
   load_data_from_db env =
     Inr ([Error (''An error occurred while loading or processing data: '' @ str e)], [])"
  by (simp add: load_data_from_db_def)

lemma load_data_from_db_returns: "\<exists>shown gdf. load_data_from_db env = Inr (shown, gdf)"
  by (cases "try_block env") (auto simp: load_data_from_db_def)

lemma try_block_query_failure: "read_sql env = Inl e \<Longrightarrow> try_block env = Inl e"
  by (simp add: try_block_def)

lemma try_block_no_rows:
  "read_sql env = Inr [] \<Longrightarrow>
   try_block env = Inr ([Warning ''No data returned from the database.''], [])"
  by (simp add: try_block_def)

lemma dashboard_stops:
  "load_data_from_db env = Inr (shown, []) \<Longrightarrow>
   dashboard env c =
     Stopped (shown @
       [Warning ''No data to display. Please ensure Phase 1 ran successfully and populated the database.''])"
  by (simp add: dashboard_def)

text \<open>
  C10. \<open>load_data_from_db\<close> always returns a frame and never raises: whatever raises
  in the \<open>try\<close> block (the query, the parsing of a geometry, reading a coordinate) is
  caught, and the call returns the empty frame, the same value the caller receives when
  the table has no rows.
\<close>

theorem load_data_from_db_total:
  "(\<exists>shown gdf. load_data_from_db env = Inr (shown, gdf)) \<and>
   (try_block env = Inl e \<longrightarrow> geo_df_of env = Inr []) \<and>
   (try_block env = Inl e \<and> read_sql env' = Inr [] \<longrightarrow> geo_df_of env = geo_df_of env')"
proof -
  have "geo_df_of env = Inr []" if "try_block env = Inl e"
    using that by (simp add: geo_df_of_def load_data_from_db_caught)
  moreover have "geo_df_of env' = Inr []" if "read_sql env' = Inr []"
    using that by (simp add: geo_df_of_def load_data_from_db_def try_block_no_rows)
  ultimately show ?thesis
    using load_data_from_db_returns [of env] by simp
qed

theorem load_data_from_db_total_witness:
  "(\<exists>shown gdf. load_data_from_db bad_geometry_store = Inr (shown, gdf)) \<and>
   try_block bad_geometry_store = Inl (Exception ''ParseException'') \<and>
   read_sql empty_store = Inr [] \<and>
   geo_df_of bad_geometry_store = Inr [] \<and>
   geo_df_of bad_geometry_store = geo_df_of empty_store"
proof -
  have bad: "try_block bad_geometry_store = Inl (Exception ''ParseException'')"
    by (simp add: try_block_def bad_geometry_store_def col_def)
  have none: "read_sql empty_store = Inr []"
    by (simp add: empty_store_def)
  show ?thesis
    using load_data_from_db_total
      [of bad_geometry_store "Exception ''ParseException''" empty_store] bad none
    by auto
qed

text \<open>
  C6, as the code has it. When the query or the connection fails, the loader does not
  fail: it shows one error message that ends with the text of the cause and returns the
  empty frame (no row of a partial table); the script then shows its warning and stops,
  so nothing else is computed in that run.
\<close>

theorem load_data_from_db_query_failure:
  assumes "read_sql env = Inl e"
  shows
    "load_data_from_db env =
       Inr ([Error (''An error occurred while loading or processing data: '' @ str e)], []) \<and>
     dashboard env c =
       Stopped
         [Error (''An error occurred while loading or processing data: '' @ str e),
          Warning ''No data to display. Please ensure Phase 1 ran successfully and populated the database.'']"
proof -
  have loaded: "load_data_from_db env =
       Inr ([Error (''An error occurred while loading or processing data: '' @ str e)], [])"
    using assms by (simp add: load_data_from_db_caught try_block_query_failure)
  show ?thesis
    using loaded dashboard_stops [OF loaded, of c] by simp
qed

theorem load_data_from_db_query_failure_witness:
  "read_sql unavailable_store = Inl (Exception ''connection refused'') \<and>
   load_data_from_db unavailable_store =
     Inr ([Error ''An error occurred while loading or processing data: connection refused''], []) \<and>
   dashboard unavailable_store sample_criteria =
     Stopped
       [Error ''An error occurred while loading or processing data: connection refused'',
        Warning ''No data to display. Please ensure Phase 1 ran successfully and populated the database.'']"
proof -
  have failed: "read_sql unavailable_store = Inl (Exception ''connection refused'')"
    by (simp add: unavailable_store_def)
  show ?thesis
    using load_data_from_db_query_failure [OF failed, of sample_criteria] failed by simp
qed

text \<open>
  The claim C6 as stated fails: with a store whose connection is refused the call does
  not end in an error, it returns a frame.
\<close>

theorem load_data_from_db_does_not_fail:
  "read_sql unavailable_store = Inl (Exception ''connection refused'') \<and>
   load_data_from_db unavailable_store \<noteq> Inl (Exception ''connection refused'') \<and>
   \<not> isl (load_data_from_db unavailable_store)"
  by (simp add: load_data_from_db_def try_block_def unavailable_store_def)

text \<open>
  C7, as the code has it. When the table has no rows the loader returns the empty
  frame and shows a warning, not an error message; the script then shows its own
  warning and stops, as it does after a failed load.
\<close>

theorem load_data_from_db_no_rows:
  assumes "read_sql env = Inr []"
  shows
    "load_data_from_db env = Inr ([Warning ''No data returned from the database.''], []) \<and>
     dashboard env c =
       Stopped
         [Warning ''No data returned from the database.'',
          Warning ''No data to display. Please ensure Phase 1 ran successfully and populated the database.'']"
proof -
  have loaded:
    "load_data_from_db env = Inr ([Warning ''No data returned from the database.''], [])"
    using assms by (simp add: load_data_from_db_def try_block_no_rows)
  show ?thesis
    using loaded dashboard_stops [OF loaded, of c] by simp
qed

theorem load_data_from_db_no_rows_witness:
  "read_sql empty_store = Inr [] \<and>
   load_data_from_db empty_store = Inr ([Warning ''No data returned from the database.''], []) \<and>
   dashboard empty_store sample_criteria =
     Stopped
       [Warning ''No data returned from the database.'',
        Warning ''No data to display. Please ensure Phase 1 ran successfully and populated the database.'']"
proof -
  have none: "read_sql empty_store = Inr []"
    by (simp add: empty_store_def)
  show ?thesis
    using load_data_from_db_no_rows [OF none, of sample_criteria] none by simp
qed

text \<open>
  The claim C7 as stated fails: the frame the caller receives from a table with no rows
  is the frame it receives after a failed load, and the run stops there.
\<close>

theorem no_rows_same_as_failure:
  "read_sql empty_store = Inr [] \<and>
   read_sql unavailable_store = Inl (Exception ''connection refused'') \<and>
   geo_df_of empty_store = geo_df_of unavailable_store \<and>
   dashboard empty_store sample_criteria =
     Stopped
       [Warning ''No data returned from the database.'',
        Warning ''No data to display. Please ensure Phase 1 ran successfully and populated the database.'']"
  by (simp add: geo_df_of_def dashboard_def load_data_from_db_def try_block_def
      empty_store_def unavailable_store_def)

section \<open>Digits and numbers\<close>

lemma digit_char_is_digit: "d < 10 \<Longrightarrow> is_digit (digit_char d)"
  by (simp add: is_digit_def digit_char_def)

lemma digit_value_digit_char: "d < 10 \<Longrightarrow> digit_value (digit_char d) = d"
  by (simp add: digit_value_def digit_char_def)

lemma read_nat_Nil: "read_nat [] = 0"
  by (simp add: read_nat_def)

lemma read_nat_snoc: "read_nat (ds @ [c]) = 10 * read_nat ds + digit_value c"
  by (simp add: read_nat_def)

lemma read_nat_append: "read_nat (xs @ ys) = read_nat xs * 10 ^ length ys + read_nat ys"
proof (induction ys rule: rev_induct)
  case Nil
  then show ?case by (simp add: read_nat_Nil)
next
  case (snoc c ys)
  have "read_nat (xs @ ys @ [c]) = 10 * read_nat (xs @ ys) + digit_value c"
    using read_nat_snoc [of "xs @ ys" c] by simp
  then show ?case
    by (simp add: snoc.IH read_nat_snoc algebra_simps)
qed

declare show_nat.simps [simp del]

lemma read_nat_show_nat: "read_nat (show_nat n) = n"
proof (induction n rule: show_nat.induct)
  case (1 n)
  show ?case
  proof (cases "n < 10")
    case True
    then show ?thesis
      using read_nat_snoc [of "[]" "digit_char n"]
      by (simp add: show_nat.simps [of n] read_nat_Nil digit_value_digit_char)
  next
    case False
    then show ?thesis
      using "1.IH" by (simp add: show_nat.simps [of n] read_nat_snoc digit_value_digit_char)
  qed
qed

lemma show_nat_digits: "list_all is_digit (show_nat n)"
proof (induction n rule: show_nat.induct)
  case (1 n)
  show ?case
  proof (cases "n < 10")
    case True
    then show ?thesis by (simp add: show_nat.simps [of n] digit_char_is_digit)
  next
    case False
    then show ?thesis
      using "1.IH" by (simp add: show_nat.simps [of n] digit_char_is_digit)
  qed
qed

lemma show_nat_not_Nil: "show_nat n \<noteq> []"
  by (simp add: show_nat.simps [of n])

lemma show_digits_digits: "list_all is_digit (show_digits k n)"
  by (induction k arbitrary: n) (simp_all add: digit_char_is_digit)

lemma length_show_digits: "length (show_digits k n) = k"
  by (induction k arbitrary: n) simp_all

lemma read_nat_show_digits: "read_nat (show_digits k n) = n mod 10 ^ k"
proof (induction k arbitrary: n)
  case 0
  then show ?case by (simp add: read_nat_Nil)
next
  case (Suc k)
  have "10 * (n div 10 mod 10 ^ k) + n mod 10 = n mod (10 * 10 ^ k)"
    by (simp add: mod_mult2_eq)
  then show ?case
    by (simp add: read_nat_snoc Suc.IH digit_value_digit_char)
qed

lemma not_digit_minus: "\<not> is_digit CHR ''-''"
  by (simp add: is_digit_def)

lemma not_digit_dot: "\<not> is_digit CHR ''.''"
  by (simp add: is_digit_def)

lemma not_digit_space: "\<not> is_digit CHR '' ''"
  by (simp add: is_digit_def)

lemma takeWhile_digits:
  "list_all is_digit w \<Longrightarrow> f = [] \<or> \<not> is_digit (hd f) \<Longrightarrow> takeWhile is_digit (w @ f) = w"
  by (induction w) (cases f; auto)+

lemma dropWhile_digits:
  "list_all is_digit w \<Longrightarrow> f = [] \<or> \<not> is_digit (hd f) \<Longrightarrow> dropWhile is_digit (w @ f) = f"
  by (induction w) (cases f; auto)+

lemma parse_number_plain:
  assumes "w \<noteq> []" and "list_all is_digit w"
  shows "parse_number ((if neg then ''-'' else []) @ w) = Some (Decimal (signed neg (read_nat w)) 0)"
proof -
  obtain c w' where w: "w = c # w'"
    using assms(1) by (cases w) auto
  have c: "c \<noteq> CHR ''-''"
    using assms(2) not_digit_minus by (auto simp: w)
  have tw: "takeWhile is_digit w = w" and dw: "dropWhile is_digit w = []"
    using takeWhile_digits [OF assms(2), of "[]"] dropWhile_digits [OF assms(2), of "[]"] by simp_all
  show ?thesis
  proof (cases neg)
    case True
    then show ?thesis
      using assms(1) by (simp add: parse_number_def Let_def tw dw)
  next
    case False
    have "hd w \<noteq> CHR ''-''"
      using c by (simp add: w)
    then show ?thesis
      using False assms(1) by (simp add: parse_number_def Let_def tw dw)
  qed
qed

lemma parse_number_fraction:
  assumes "w \<noteq> []" and "list_all is_digit w" and "d \<noteq> []" and "list_all is_digit d"
  shows "parse_number ((if neg then ''-'' else []) @ w @ CHR ''.'' # d) =
         Some (Decimal (signed neg (read_nat (w @ d))) (length d))"
proof -
  obtain c w' where w: "w = c # w'"
    using assms(1) by (cases w) auto
  have c: "c \<noteq> CHR ''-''"
    using assms(2) not_digit_minus by (auto simp: w)
  have stop: "CHR ''.'' # d = [] \<or> \<not> is_digit (hd (CHR ''.'' # d))"
    using not_digit_dot by simp
  have tw: "takeWhile is_digit (w @ CHR ''.'' # d) = w"
    and dw: "dropWhile is_digit (w @ CHR ''.'' # d) = CHR ''.'' # d"
    using takeWhile_digits [OF assms(2) stop] dropWhile_digits [OF assms(2) stop] by simp_all
  show ?thesis
  proof (cases neg)
    case True
    then show ?thesis
      using assms by (simp add: parse_number_def Let_def tw dw)
  next
    case False
    have "hd (w @ CHR ''.'' # d) = c" by (simp add: w)
    then show ?thesis
      using False assms c by (simp add: parse_number_def Let_def tw dw)
  qed
qed

lemma signed_abs: "signed (m < 0) (nat \<bar>m\<bar>) = m"
  by (simp add: signed_def)

lemma parse_number_show_number: "parse_number (show_number d) = Some d"
proof (cases d)
  case (Decimal m k)
  let ?a = "nat \<bar>m\<bar>"
  show ?thesis
  proof (cases "k = 0")
    case True
    then show ?thesis
      using parse_number_plain [of "show_nat ?a" "m < 0", OF show_nat_not_Nil show_nat_digits]
      by (simp add: Decimal read_nat_show_nat signed_abs)
  next
    case False
    have ne: "show_digits k (?a mod 10 ^ k) \<noteq> []"
      using False length_show_digits [of k "?a mod 10 ^ k"] by auto
    have "read_nat (show_nat (?a div 10 ^ k) @ show_digits k (?a mod 10 ^ k)) = ?a"
      by (simp add: read_nat_append read_nat_show_nat read_nat_show_digits length_show_digits
          div_mult_mod_eq)
    then show ?thesis
      using False
        parse_number_fraction
          [of "show_nat (?a div 10 ^ k)" "show_digits k (?a mod 10 ^ k)" "m < 0",
           OF show_nat_not_Nil show_nat_digits ne show_digits_digits]
      by (simp add: Decimal signed_abs length_show_digits)
  qed
qed

section \<open>The decoder and the point grammar\<close>

lemma split_on_not_Nil: "split_on c s \<noteq> []"
  by (induction s) (auto split: list.splits)

lemma split_on_no_separator: "c \<notin> set a \<Longrightarrow> split_on c a = [a]"
  by (induction a) auto

lemma split_on_append: "c \<notin> set a \<Longrightarrow> split_on c (a @ c # b) = a # split_on c b"
  by (induction a) auto

lemma split_on_single: "split_on c s = [t] \<Longrightarrow> s = t \<and> c \<notin> set t"
proof (induction s arbitrary: t)
  case Nil
  then show ?case by simp
next
  case (Cons x xs)
  show ?case
  proof (cases "x = c")
    case True
    then show ?thesis
      using Cons.prems split_on_not_Nil [of c xs] by simp
  next
    case False
    then obtain u us where u: "split_on c xs = u # us"
      using split_on_not_Nil [of c xs] by (cases "split_on c xs") auto
    with False Cons.prems have "us = []" and "t = x # u" by auto
    with u Cons.IH [of u] False show ?thesis by simp
  qed
qed

lemma split_on_pair: "split_on c s = [t1, t2] \<Longrightarrow> s = t1 @ c # t2"
proof (induction s arbitrary: t1)
  case Nil
  then show ?case by simp
next
  case (Cons x xs)
  show ?case
  proof (cases "x = c")
    case True
    with Cons.prems have "t1 = []" and "split_on c xs = [t2]" by auto
    with split_on_single [of c xs t2] True show ?thesis by simp
  next
    case False
    then obtain u us where u: "split_on c xs = u # us"
      using split_on_not_Nil [of c xs] by (cases "split_on c xs") auto
    with False Cons.prems have "us = [t2]" and "t1 = x # u" by auto
    with u Cons.IH [of u] show ?thesis by simp
  qed
qed

lemma number_text_no_space: "number_text t \<Longrightarrow> CHR '' '' \<notin> set t"
  using not_digit_space by (auto simp: number_text_def list_all_iff)

lemma number_text_parses: "number_text t \<Longrightarrow> \<exists>d. parse_number t = Some d"
proof -
  assume "number_text t"
  then obtain sg w f where t: "t = sg @ w @ f" and sg: "sg = [] \<or> sg = ''-''"
    and w: "w \<noteq> []" "list_all is_digit w"
    and f: "f = [] \<or> (\<exists>d. f = CHR ''.'' # d \<and> d \<noteq> [] \<and> list_all is_digit d)"
    unfolding number_text_def by blast
  have sg': "sg = (if sg = ''-'' then ''-'' else [])"
    using sg by auto
  show ?thesis
  proof (cases "f = []")
    case True
    then show ?thesis
      using parse_number_plain [OF w, of "sg = ''-''"] sg' by (simp add: t)
  next
    case False
    then obtain d where d: "f = CHR ''.'' # d" "d \<noteq> []" "list_all is_digit d"
      using f by blast
    then show ?thesis
      using parse_number_fraction [OF w d(2,3), of "sg = ''-''"] sg' by (simp add: t)
  qed
qed

lemma parse_number_number_text: "parse_number t = Some d \<Longrightarrow> number_text t"
proof -
  assume parsed: "parse_number t = Some d"
  define neg where "neg \<longleftrightarrow> t \<noteq> [] \<and> hd t = CHR ''-''"
  define u where "u = (if neg then tl t else t)"
  define w where "w = takeWhile is_digit u"
  define f where "f = dropWhile is_digit u"
  have t: "t = (if neg then ''-'' else []) @ w @ f"
    by (cases t) (auto simp: neg_def u_def w_def f_def)
  have w: "list_all is_digit w"
    by (auto simp: w_def list_all_iff dest: set_takeWhileD)
  have unfolded: "parse_number t =
      (if w = [] then None
       else if f = [] then Some (Decimal (signed neg (read_nat w)) 0)
       else if hd f = CHR ''.'' \<and> tl f \<noteq> [] \<and> list_all is_digit (tl f)
         then Some (Decimal (signed neg (read_nat (w @ tl f))) (length (tl f)))
       else None)"
    by (simp add: parse_number_def Let_def neg_def u_def w_def f_def)
  have "w \<noteq> []"
    using parsed unfolded by (auto split: if_splits)
  moreover have "f = [] \<or> (\<exists>d. f = CHR ''.'' # d \<and> d \<noteq> [] \<and> list_all is_digit d)"
  proof (cases f)
    case Nil
    then show ?thesis by simp
  next
    case (Cons a as)
    then show ?thesis
      using parsed unfolded \<open>w \<noteq> []\<close> by (auto split: if_splits)
  qed
  ultimately show ?thesis
    unfolding number_text_def using t w by (intro exI [of _ "if neg then ''-'' else []"] exI [of _ w] exI [of _ f]) auto
qed

lemma number_text_show_number: "number_text (show_number d)"
  using parse_number_number_text [OF parse_number_show_number] .

lemma point_prefix_not_other:
  "\<not> list_ex (\<lambda>kw. starts_with kw (''POINT('' @ rest)) other_geometry_types"
  by (simp add: starts_with_def other_geometry_types_def)

lemma decode_point_tokens:
  assumes "CHR '' '' \<notin> set t1" and "CHR '' '' \<notin> set t2"
  shows "decode_point (Some (''POINT('' @ t1 @ '' '' @ t2 @ '')'')) =
         (case (parse_number t1, parse_number t2) of
            (Some x, Some y) \<Rightarrow> Inr (Point x y)
          | _ \<Rightarrow> Inl MalformedGeometry)"
proof -
  have split: "split_on CHR '' '' (t1 @ CHR '' '' # t2) = [t1, t2]"
    using assms by (simp add: split_on_append split_on_no_separator)
  have body: "butlast (t1 @ CHR '' '' # t2 @ '')'') = t1 @ CHR '' '' # t2"
    using butlast_snoc [of "t1 @ CHR '' '' # t2" "CHR '')''"] by simp
  show ?thesis
    using point_prefix_not_other [of "t1 @ '' '' @ t2 @ '')''"]
    by (simp add: starts_with_def body split)
qed

lemma decode_point_encode_point: "decode_point (Some (encode_point p)) = Inr p"
proof (cases p)
  case (Point x y)
  show ?thesis
    using decode_point_tokens [OF number_text_no_space [OF number_text_show_number [of x]]
        number_text_no_space [OF number_text_show_number [of y]]]
    by (simp add: Point parse_number_show_number)
qed

lemma point_text_decodes: "point_text s \<Longrightarrow> \<exists>p. decode_point (Some s) = Inr p"
proof -
  assume "point_text s"
  then obtain t1 t2 where s: "s = ''POINT('' @ t1 @ '' '' @ t2 @ '')''"
    and n: "number_text t1" "number_text t2"
    unfolding point_text_def by blast
  obtain x y where "parse_number t1 = Some x" "parse_number t2 = Some y"
    using n number_text_parses by blast
  then show ?thesis
    using decode_point_tokens [OF number_text_no_space [OF n(1)] number_text_no_space [OF n(2)]]
    by (simp add: s)
qed

lemma decode_point_point_text: "decode_point (Some s) = Inr p \<Longrightarrow> point_text s"
proof -
  assume ok: "decode_point (Some s) = Inr p"
  define body where "body = drop 6 s"
  have start: "starts_with ''POINT('' s"
    using ok by (auto split: if_splits)
  have other: "\<not> list_ex (\<lambda>kw. starts_with kw s) other_geometry_types"
    using ok by (auto split: if_splits)
  have body: "body \<noteq> []" "last body = CHR '')''"
    using ok start other by (auto simp: body_def Let_def split: if_splits)
  obtain t1 t2 where toks: "split_on CHR '' '' (butlast body) = [t1, t2]"
    and nums: "parse_number t1 \<noteq> None" "parse_number t2 \<noteq> None"
    using ok start other body
    by (auto simp: body_def Let_def split: if_splits list.splits option.splits)
  have "s = take 6 s @ body"
    by (simp add: body_def)
  moreover have "take 6 s = ''POINT(''"
    using start by (simp add: starts_with_def eval_nat_numeral)
  moreover have "body = butlast body @ '')''"
    using body append_butlast_last_id [of body] by simp
  moreover have "butlast body = t1 @ CHR '' '' # t2"
    using split_on_pair [OF toks] .
  ultimately have "s = ''POINT('' @ t1 @ '' '' @ t2 @ '')''"
    by simp
  moreover have "number_text t1" "number_text t2"
    using nums parse_number_number_text by auto
  ultimately show ?thesis
    unfolding point_text_def by blast
qed

lemma decode_point_unsupported_iff:
  "decode_point (Some s) = Inl UnsupportedGeometryType \<longleftrightarrow> other_geometry_text s"
proof -
  have "list_ex (\<lambda>kw. starts_with kw s) other_geometry_types \<longleftrightarrow> other_geometry_text s"
  proof
    assume "list_ex (\<lambda>kw. starts_with kw s) other_geometry_types"
    then obtain kw where "kw \<in> set other_geometry_types" "take (length kw) s = kw"
      by (auto simp: list_ex_iff starts_with_def)
    then have "kw \<in> set other_geometry_types \<and> s = kw @ drop (length kw) s"
      using append_take_drop_id [of "length kw" s] by simp
    then show "other_geometry_text s"
      unfolding other_geometry_text_def by blast
  next
    assume "other_geometry_text s"
    then obtain kw rest where kw: "kw \<in> set other_geometry_types" and s: "s = kw @ rest"
      unfolding other_geometry_text_def by blast
    have "starts_with kw s"
      by (simp add: starts_with_def s)
    with kw show "list_ex (\<lambda>kw. starts_with kw s) other_geometry_types"
      unfolding list_ex_iff by blast
  qed
  then show ?thesis
    by (auto simp: Let_def split: if_splits list.splits option.splits)
qed

section \<open>The loader with the spec's decoder\<close>

lemma vectorized_total: "vectorized (\<lambda>x. Inr (h x)) xs = Inr (map h xs)"
  by (induction xs) simp_all

lemma vectorized_list_all2:
  "list_all2 (\<lambda>x y. f x = Inr y) xs ys \<Longrightarrow> vectorized f xs = Inr ys"
  by (induction xs ys rule: list_all2_induct) simp_all

lemma vectorized_raises:
  "x \<in> set xs \<Longrightarrow> f x = Inl e \<Longrightarrow> \<exists>y e'. y \<in> set xs \<and> f y = Inl e' \<and> vectorized f xs = Inl e'"
proof (induction xs)
  case Nil
  then show ?case by simp
next
  case (Cons a as)
  show ?case
  proof (cases "f a")
    case (Inl e')
    then show ?thesis by auto
  next
    case (Inr b)
    with Cons.prems have "x \<in> set as" by auto
    then obtain y e' where "y \<in> set as" "f y = Inl e'" "vectorized f as = Inl e'"
      using Cons.IH Cons.prems(2) by blast
    with Inr show ?thesis by auto
  qed
qed

lemma with_lat_lon_points:
  "length df = length ps \<Longrightarrow>
   with_lat_lon (GeoDataFrame df ps) (map point_y ps) (map point_x ps) =
     map2 (\<lambda>r p. property_record.extend r (\<lparr>geometry = p, lat = point_y p, lon = point_x p\<rparr>)) df ps"
  by (induction df ps rule: list_induct2) (simp_all add: with_lat_lon_def GeoDataFrame_def)

lemma load_points:
  assumes "df \<noteq> []"
    and "list_all2 (\<lambda>r p. wkt_coordinates r = Some (encode_point p)) df ps"
  shows "load_data_from_db (spec_env (Inr df)) =
     Inr ([], map2 (\<lambda>r p. property_record.extend r (\<lparr>geometry = p, lat = point_y p, lon = point_x p\<rparr>)) df ps)"
proof -
  define env where "env = spec_env (Inr df)"
  have len: "length df = length ps"
    using assms(2) by (rule list_all2_lengthD)
  have rows: "read_sql env = Inr df"
    by (simp add: env_def spec_env_def)
  have "list_all2 (\<lambda>s p. from_wkt env s = Inr p) (col wkt_coordinates df) ps"
    using assms(2)
    by (simp add: col_def list_all2_map1 env_def spec_env_def)
       (erule list_all2_mono, simp add: decode_point_encode_point del: decode_point.simps)
  then have decoded: "vectorized (from_wkt env) (col wkt_coordinates df) = Inr ps"
    by (rule vectorized_list_all2)
  have gdf: "GeoDataFrame df ps \<noteq> []" "col snd (GeoDataFrame df ps) = ps"
    using assms(1) len by (auto simp: GeoDataFrame_def col_def)
  have ys: "vectorized (geometry_y env) ps = Inr (map point_y ps)"
    and xs: "vectorized (geometry_x env) ps = Inr (map point_x ps)"
    by (simp_all add: env_def spec_env_def vectorized_total)
  have "try_block env =
     Inr ([], with_lat_lon (GeoDataFrame df ps) (map point_y ps) (map point_x ps))"
    using assms(1) by (simp add: try_block_def rows decoded gdf ys xs)
  then show ?thesis
    by (simp add: load_data_from_db_def with_lat_lon_points [OF len] env_def)
qed

lemma load_bad_geometry:
  assumes "r \<in> set df" and "decode_point (wkt_coordinates r) = Inl err"
  shows "\<exists>err'. try_block (spec_env (Inr df)) = Inl (raise_geometry_error err')"
proof -
  define env where "env = spec_env (Inr df)"
  have rows: "read_sql env = Inr df"
    by (simp add: env_def spec_env_def)
  have member: "wkt_coordinates r \<in> set (col wkt_coordinates df)"
    using assms(1) by (simp add: col_def)
  have fails: "from_wkt env (wkt_coordinates r) = Inl (raise_geometry_error err)"
    using assms(2) by (simp add: env_def spec_env_def)
  obtain s e where s: "from_wkt env s = Inl e"
    and v: "vectorized (from_wkt env) (col wkt_coordinates df) = Inl e"
    using vectorized_raises
      [of "wkt_coordinates r" "col wkt_coordinates df" "from_wkt env" "raise_geometry_error err",
       OF member fails]
    by auto
  have "from_wkt env s =
      (case decode_point s of Inl err \<Rightarrow> Inl (raise_geometry_error err) | Inr p \<Rightarrow> Inr p)"
    by (simp add: env_def spec_env_def)
  with s obtain err' where "e = raise_geometry_error err'"
    by (cases "decode_point s") auto
  moreover have "df \<noteq> []"
    using assms(1) by auto
  ultimately have "try_block env = Inl (raise_geometry_error err')"
    using v by (simp add: try_block_def rows)
  then show ?thesis
    unfolding env_def by blast
qed

text \<open>
  C4. For every point, the decoder of the spec reads the text \<open>POINT(x y)\<close> that the
  encoder writes for it and returns exactly the pair \<open>(x, y)\<close>; and when every row of a
  non-empty table carries such a text, the loader returns the rows in their order, each
  with its point as geometry, \<open>x\<close> as its longitude and \<open>y\<close> as its latitude.
\<close>

theorem decode_point_round_trip:
  "decode_point (Some (encode_point (Point x y))) = Inr (Point x y) \<and>
   (df \<noteq> [] \<and> list_all2 (\<lambda>r p. wkt_coordinates r = Some (encode_point p)) df ps \<longrightarrow>
      load_data_from_db (spec_env (Inr df)) =
        Inr ([], map2 (\<lambda>r p. property_record.extend r
                                 \<lparr>geometry = p, lat = point_y p, lon = point_x p\<rparr>) df ps))"
  using decode_point_encode_point [of "Point x y"] load_points [of df ps] by blast

theorem decode_point_round_trip_witness:
  "decode_point (Some ''POINT(-97.7 30.3)'') = Inr (Point (Decimal (- 977) 1) (Decimal 303 1)) \<and>
   [sample_property ''Austin'' 1000 32] \<noteq> [] \<and>
   wkt_coordinates (sample_property ''Austin'' 1000 32) = Some ''POINT(-97.7 30.3)'' \<and>
   load_data_from_db (spec_env (Inr [sample_property ''Austin'' 1000 32])) =
     Inr ([], [property_record.extend (sample_property ''Austin'' 1000 32)
                 \<lparr>geometry = Point (Decimal (- 977) 1) (Decimal 303 1),
                  lat = Decimal 303 1, lon = Decimal (- 977) 1\<rparr>])"
proof -
  have enc: "encode_point (Point (Decimal (- 977) 1) (Decimal 303 1)) = ''POINT(-97.7 30.3)''"
    by code_simp
  have row: "wkt_coordinates (sample_property ''Austin'' 1000 32) = Some ''POINT(-97.7 30.3)''"
    by (simp add: sample_property_def)
  show ?thesis
    using decode_point_round_trip
      [of "Decimal (- 977) 1" "Decimal 303 1" "[sample_property ''Austin'' 1000 32]"
        "[Point (Decimal (- 977) 1) (Decimal 303 1)]"]
    by (simp only: enc row list_all2_Cons list_all2_Nil zip.simps list.map prod.case
          point_x.simps point_y.simps list.case simp_thms not_Cons_self2)
qed

text \<open>
  C5. A null input is malformed. A text that is not of the point grammar, and not of
  another geometry type, is malformed; a text of another recognized geometry type is
  unsupported, and the two errors differ. When the text of a row of the table fails to
  decode, with either error, the loader returns no row at all and shows an error
  message that names a decoder error, and the script stops.
\<close>

theorem decode_point_failures:
  "decode_point None = Inl MalformedGeometry \<and>
   (\<not> point_text s \<and> \<not> other_geometry_text s \<longrightarrow> decode_point (Some s) = Inl MalformedGeometry) \<and>
   (other_geometry_text s' \<longrightarrow> decode_point (Some s') = Inl UnsupportedGeometryType) \<and>
   MalformedGeometry \<noteq> UnsupportedGeometryType \<and>
   (r \<in> set df \<and> decode_point (wkt_coordinates r) = Inl err \<longrightarrow>
      (\<exists>err'.
         load_data_from_db (spec_env (Inr df)) =
           Inr ([Error (''An error occurred while loading or processing data: ''
                        @ str (raise_geometry_error err'))], []) \<and>
         dashboard (spec_env (Inr df)) c =
           Stopped
             [Error (''An error occurred while loading or processing data: ''
                     @ str (raise_geometry_error err')),
              Warning ''No data to display. Please ensure Phase 1 ran successfully and populated the database.'']))"
proof -
  have malformed: "decode_point (Some s) = Inl MalformedGeometry"
    if "\<not> point_text s" and "\<not> other_geometry_text s"
  proof (cases "decode_point (Some s)")
    case (Inr p)
    then show ?thesis
      using that(1) decode_point_point_text by blast
  next
    case (Inl e)
    then show ?thesis
      using that(2) decode_point_unsupported_iff [of s] by (cases e) simp_all
  qed
  have unsupported: "decode_point (Some s') = Inl UnsupportedGeometryType"
    if "other_geometry_text s'"
    using that decode_point_unsupported_iff [of s'] by blast
  have fatal: "\<exists>err'.
         load_data_from_db (spec_env (Inr df)) =
           Inr ([Error (''An error occurred while loading or processing data: ''
                        @ str (raise_geometry_error err'))], []) \<and>
         dashboard (spec_env (Inr df)) c =
           Stopped
             [Error (''An error occurred while loading or processing data: ''
                     @ str (raise_geometry_error err')),
              Warning ''No data to display. Please ensure Phase 1 ran successfully and populated the database.'']"
    if member: "r \<in> set df" and failing: "decode_point (wkt_coordinates r) = Inl err"
  proof -
    obtain err' where raised: "try_block (spec_env (Inr df)) = Inl (raise_geometry_error err')"
      using load_bad_geometry [OF member failing] by blast
    have loaded: "load_data_from_db (spec_env (Inr df)) =
           Inr ([Error (''An error occurred while loading or processing data: ''
                        @ str (raise_geometry_error err'))], [])"
      using load_data_from_db_caught [OF raised] .
    show ?thesis
      using loaded dashboard_stops [OF loaded, of c] by (intro exI [of _ err']) simp
  qed
  show ?thesis
    using malformed unsupported fatal by (simp del: decode_point.simps(2))
qed

theorem decode_point_failures_witness:
  "\<not> point_text ''POINT(-97.7 30.3'' \<and> \<not> other_geometry_text ''POINT(-97.7 30.3'' \<and>
   decode_point (Some ''POINT(-97.7 30.3'') = Inl MalformedGeometry \<and>
   other_geometry_text ''LINESTRING(0 0,1 1)'' \<and>
   decode_point (Some ''LINESTRING(0 0,1 1)'') = Inl UnsupportedGeometryType \<and>
   unclosed_property \<in> set [sample_property ''Austin'' 1000 32, unclosed_property] \<and>
   decode_point (wkt_coordinates unclosed_property) = Inl MalformedGeometry \<and>
   (\<exists>err'.
      load_data_from_db (spec_env (Inr [sample_property ''Austin'' 1000 32, unclosed_property])) =
        Inr ([Error (''An error occurred while loading or processing data: ''
                     @ str (raise_geometry_error err'))], []) \<and>
      dashboard (spec_env (Inr [sample_property ''Austin'' 1000 32, unclosed_property]))
          sample_criteria =
        Stopped
          [Error (''An error occurred while loading or processing data: ''
                  @ str (raise_geometry_error err')),
           Warning ''No data to display. Please ensure Phase 1 ran successfully and populated the database.''])"
proof -
  have unclosed: "decode_point (Some ''POINT(-97.7 30.3'') = Inl MalformedGeometry"
    by code_simp
  have line: "decode_point (Some ''LINESTRING(0 0,1 1)'') = Inl UnsupportedGeometryType"
    by code_simp
  have no_point: "\<not> point_text ''POINT(-97.7 30.3''"
    using point_text_decodes [of "''POINT(-97.7 30.3''"] unclosed by auto
  have no_other: "\<not> other_geometry_text ''POINT(-97.7 30.3''"
    using decode_point_unsupported_iff [of "''POINT(-97.7 30.3''"] unclosed by auto
  have other: "other_geometry_text ''LINESTRING(0 0,1 1)''"
    using decode_point_unsupported_iff [of "''LINESTRING(0 0,1 1)''"] line by auto
  have row: "wkt_coordinates unclosed_property = Some ''POINT(-97.7 30.3''"
    by (simp add: unclosed_property_def)
  have member: "unclosed_property \<in> set [sample_property ''Austin'' 1000 32, unclosed_property]"
    by simp
  have bad: "decode_point (wkt_coordinates unclosed_property) = Inl MalformedGeometry"
    by (simp only: row unclosed)
  show ?thesis
    using decode_point_failures
      [of "''POINT(-97.7 30.3''" "''LINESTRING(0 0,1 1)''" unclosed_property
        "[sample_property ''Austin'' 1000 32, unclosed_property]" MalformedGeometry sample_criteria]
      no_point no_other unclosed other line member bad
    by blast
qed

end
